theory Spec2Isabelle
  imports Main
begin

section \<open>Data model\<close>

text \<open>
  The resolvers of \<^verbatim>\<open>server/src/schema/mutations/user.ts\<close> work on two tables, reached
  through the entities \<^verbatim>\<open>Users\<close> and \<^verbatim>\<open>VerificationCode\<close>. A table is the list of its rows
  in insertion order. The column \<^verbatim>\<open>id\<close> of a user is called \<open>userId\<close> here (\<open>id\<close> is the
  identity function of HOL); it is generated by the table on insert.
\<close>

record user =
  userId :: nat
  fullName :: string
  userName :: string
  email :: string
  password :: string
  birthday :: string
  isAdmin :: bool

record verification_code =
  vc_email :: string
  vc_code :: string

text \<open>
  A pending deletion scheduled by \<^verbatim>\<open>removeExpiredAuth(VerificationCode, email, code, delay)\<close>,
  and a message handed to \<^verbatim>\<open>client.sendMail\<close>.
\<close>

record timer =
  t_email :: string
  t_code :: string
  t_delay :: nat

record mail =
  m_from :: string
  m_to :: string
  m_code :: string

record store =
  Users :: "user list"
  VerificationCode :: "verification_code list"
  next_id :: nat
  timers :: "timer list"
  outbox :: "mail list"

text \<open>
  What the resolvers import and this file does not define: the validators of
  \<^verbatim>\<open>utils\<close>, the two functions of bcryptjs and the signing key of the process environment.
  They are parameters of every resolver. \<open>bcrypt_hash p r\<close> is the hash that
  \<^verbatim>\<open>bcrypt.hash(p, r)\<close> resolves to, \<open>bcrypt_compare p h\<close> the boolean of
  \<^verbatim>\<open>bcrypt.compare(p, h)\<close>.
\<close>

record env =
  checkValidEmail :: "string \<Rightarrow> bool"
  checkValidFullName :: "string \<Rightarrow> bool"
  checkValidUserName :: "string \<Rightarrow> bool"
  checkValidPassword :: "string \<Rightarrow> bool"
  checkValidBirthday :: "string \<Rightarrow> bool"
  bcrypt_hash :: "string \<Rightarrow> nat \<Rightarrow> string"
  bcrypt_compare :: "string \<Rightarrow> string \<Rightarrow> bool"
  ACCESS_TOKEN_SECRET :: "string option"

text \<open>
  Every \<^verbatim>\<open>throw new Error(...)\<close> of the file is one constructor:
  \<^item> \<open>UnvalidEmail\<close>: "Unvalid email !"
  \<^item> \<open>UnvalidFullName\<close>: "Unvalid FullName! ..."
  \<^item> \<open>UnvalidUserName\<close>: "Unvalid userName !"
  \<^item> \<open>PasswordTooWeak\<close>: "Password must be at least 8 characters and contains uppercase,
    lowercase, digits and special characters !"
  \<^item> \<open>PasswordMustMatchConfirmation\<close>: "Password must match with passwordConfirmation !"
  \<^item> \<open>UnvalidBirthday\<close>: "Unvalid birthday !"
  \<^item> \<open>UserAlreadyRegistered\<close>: "User already registered !"
  \<^item> \<open>UserDoesntExist\<close>: "User doesn't exist !" (login)
  \<^item> \<open>WrongPassword\<close>: "Wrong password !"
  \<^item> \<open>USER_DOESNT_EXIST\<close>: "USER DOESN'T EXIST !"
  \<^item> \<open>AuthorizationSessionExpired\<close>: "Authorization session expired !"
  \<^item> \<open>ConfirmationDoesntMatch\<close>: "Password confirmation doesn't match with password !"
  \<^item> \<open>PleaseChooseAnotherPassword\<close>: "Please choose another password"
  \<^item> \<open>PLEASE_CHOOSE_ANOTHER_PASSWORD\<close>: "PLEASE CHOOSE ANOTHER PASSWORD !"
  \<^item> \<open>PasswordDoesntMatch\<close>: "Password doesn't match"
  \<^item> \<open>NO_ITEM_SELECTED\<close>: "NO ITEM SELECTED !"
  \<^item> \<open>UnvalidCode\<close>: "Unvalid code !"
\<close>

datatype error =
    UnvalidEmail
  | UnvalidFullName
  | UnvalidUserName
  | PasswordTooWeak
  | PasswordMustMatchConfirmation
  | UnvalidBirthday
  | UserAlreadyRegistered
  | UserDoesntExist
  | WrongPassword
  | USER_DOESNT_EXIST
  | AuthorizationSessionExpired
  | ConfirmationDoesntMatch
  | PleaseChooseAnotherPassword
  | PLEASE_CHOOSE_ANOTHER_PASSWORD
  | PasswordDoesntMatch
  | NO_ITEM_SELECTED
  | UnvalidCode

text \<open>The arguments of \<^verbatim>\<open>createUser\<close>; the resolver returns this object as it received it.\<close>

record create_user_args =
  arg_fullName :: string
  arg_userName :: string
  arg_email :: string
  arg_password :: string
  arg_passwordConfirmation :: string
  arg_birthday :: string
  arg_isAdmin :: "bool option"

text \<open>
  The payload \<^verbatim>\<open>login\<close> signs. A token is the symbolic term of the call
  \<^verbatim>\<open>jwt.sign(payload, key, { expiresIn })\<close>: verifying it with the key it was signed with
  gives the payload back, with any other key nothing.
\<close>

record claims =
  claim_id :: nat
  claim_fullName :: string
  claim_email :: string
  claim_username :: string
  claim_isAdmin :: bool

datatype jwt = Jwt claims string string

definition jwt_sign :: "claims \<Rightarrow> string \<Rightarrow> string \<Rightarrow> jwt" where
  "jwt_sign payload key expiresIn = Jwt payload key expiresIn"

fun jwt_verify :: "jwt \<Rightarrow> string \<Rightarrow> claims option" where
  "jwt_verify (Jwt payload key expiresIn) k = (if k = key then Some payload else None)"

fun jwt_expiresIn :: "jwt \<Rightarrow> string" where
  "jwt_expiresIn (Jwt payload key expiresIn) = expiresIn"

text \<open>What a resolver resolves to when it does not throw.\<close>

datatype reply =
    Echo create_user_args
  | Token jwt
  | OK
  | UpdateResult
  | Undefined

type_synonym outcome = "(error + reply) \<times> store"

section \<open>The entities' operations\<close>

text \<open>
  \<^verbatim>\<open>findOne({ where })\<close> is the first row that satisfies the condition, \<^verbatim>\<open>insert\<close> appends
  a row, \<^verbatim>\<open>update(criteria, partial)\<close> rewrites every row that meets the criteria,
  \<^verbatim>\<open>delete(criteria)\<close> removes every row that meets them. The tables carry no constraint
  of their own: an operation on them never fails.
\<close>

definition findOne :: "('a \<Rightarrow> bool) \<Rightarrow> 'a list \<Rightarrow> 'a option" where
  "findOne cond rows = find cond rows"

definition insert_Users ::
  "string \<Rightarrow> string \<Rightarrow> string \<Rightarrow> string \<Rightarrow> string \<Rightarrow> bool \<Rightarrow> store \<Rightarrow> store" where
  "insert_Users fn un em pw bd ad s =
     s\<lparr>Users := Users s @
          [\<lparr>userId = next_id s, fullName = fn, userName = un, email = em,
            password = pw, birthday = bd, isAdmin = ad\<rparr>],
       next_id := Suc (next_id s)\<rparr>"

definition delete_Users :: "nat \<Rightarrow> store \<Rightarrow> store" where
  "delete_Users i s = s\<lparr>Users := filter (\<lambda>u. userId u \<noteq> i) (Users s)\<rparr>"

definition update_Users :: "(user \<Rightarrow> bool) \<Rightarrow> (user \<Rightarrow> user) \<Rightarrow> store \<Rightarrow> store" where
  "update_Users criteria partial s =
     s\<lparr>Users := map (\<lambda>u. if criteria u then partial u else u) (Users s)\<rparr>"

definition delete_VerificationCode :: "(verification_code \<Rightarrow> bool) \<Rightarrow> store \<Rightarrow> store" where
  "delete_VerificationCode criteria s =
     s\<lparr>VerificationCode := filter (\<lambda>v. \<not> criteria v) (VerificationCode s)\<rparr>"

definition insert_VerificationCode :: "string \<Rightarrow> string \<Rightarrow> store \<Rightarrow> store" where
  "insert_VerificationCode em c s =
     s\<lparr>VerificationCode := VerificationCode s @ [\<lparr>vc_email = em, vc_code = c\<rparr>]\<rparr>"

text \<open>JavaScript's truthiness of an optional string argument: absent and empty are falsy.\<close>

fun truthy :: "string option \<Rightarrow> bool" where
  "truthy None = False"
| "truthy (Some v) = (v \<noteq> [])"

text \<open>The same for an optional boolean argument: absent and \<^verbatim>\<open>false\<close> are falsy.\<close>

fun truthy_bool :: "bool option \<Rightarrow> bool" where
  "truthy_bool None = False"
| "truthy_bool (Some b) = b"

section \<open>The resolvers\<close>

text \<open>
  A resolver takes the environment, its arguments and the store, and returns the error it
  threw or the value it resolved to, together with the store as it is at that point.
  An argument that the resolver tests for presence (\<^verbatim>\<open>if (userName)\<close>) is optional; the
  others are the strings the caller supplied.
\<close>

subsection \<open>CREATE_USER\<close>

definition CREATE_USER :: "env \<Rightarrow> create_user_args \<Rightarrow> store \<Rightarrow> outcome" where
  "CREATE_USER env args s =
     (if \<not> checkValidEmail env (arg_email args) then (Inl UnvalidEmail, s)
      else if \<not> checkValidFullName env (arg_fullName args) then (Inl UnvalidFullName, s)
      else if \<not> checkValidUserName env (arg_userName args) then (Inl UnvalidUserName, s)
      else if \<not> checkValidPassword env (arg_password args) then (Inl PasswordTooWeak, s)
      else if arg_password args \<noteq> arg_passwordConfirmation args
        then (Inl PasswordMustMatchConfirmation, s)
      else if \<not> checkValidBirthday env (arg_birthday args) then (Inl UnvalidBirthday, s)
      else
        (case findOne (\<lambda>u. email u = arg_email args \<or> userName u = arg_userName args) (Users s) of
           Some user \<Rightarrow> (Inl UserAlreadyRegistered, s)
         | None \<Rightarrow>
             (let isAdmin' = (if \<not> truthy_bool (arg_isAdmin args) then False else True);
                  hashed_password = bcrypt_hash env (arg_password args) 10
              in (Inr (Echo args),
                  insert_Users (arg_fullName args) (arg_userName args) (arg_email args)
                    hashed_password (arg_birthday args) isAdmin' s))))"

subsection \<open>LOGIN\<close>

definition signing_key :: "env \<Rightarrow> string" where
  "signing_key env = (if truthy (ACCESS_TOKEN_SECRET env)
     then (case ACCESS_TOKEN_SECRET env of Some k \<Rightarrow> k | None \<Rightarrow> ''secret_key'')
     else ''secret_key'')"

definition LOGIN :: "env \<Rightarrow> string \<Rightarrow> string \<Rightarrow> store \<Rightarrow> outcome" where
  "LOGIN env em pw s =
     (case findOne (\<lambda>u. email u = em \<or> userName u = em) (Users s) of
        None \<Rightarrow> (Inl UserDoesntExist, s)
      | Some user \<Rightarrow>
          (let passwordMatch = bcrypt_compare env pw (password user)
           in if \<not> passwordMatch then (Inl WrongPassword, s)
              else (Inr (Token (jwt_sign
                      \<lparr>claim_id = userId user, claim_fullName = fullName user,
                        claim_email = email user, claim_username = userName user,
                        claim_isAdmin = isAdmin user\<rparr>
                      (signing_key env) ''1d'')), s)))"

subsection \<open>DELETE_USER\<close>

definition DELETE_USER :: "nat \<Rightarrow> store \<Rightarrow> outcome" where
  "DELETE_USER i s = (Inr Undefined, delete_Users i s)"

subsection \<open>UPDATE_USER_PASSWORD\<close>

definition UPDATE_USER_PASSWORD ::
  "env \<Rightarrow> string \<Rightarrow> string \<Rightarrow> string \<Rightarrow> string \<Rightarrow> store \<Rightarrow> outcome" where
  "UPDATE_USER_PASSWORD env em oldPassword newPassword c s =
     (case findOne (\<lambda>u. email u = em) (Users s) of
        None \<Rightarrow> (Inl USER_DOESNT_EXIST, s)
      | Some user \<Rightarrow>
          (case findOne (\<lambda>v. vc_email v = em \<and> vc_code v = c) (VerificationCode s) of
             None \<Rightarrow> (Inl AuthorizationSessionExpired, s)
           | Some verif_code \<Rightarrow>
               if oldPassword \<noteq> newPassword then (Inl ConfirmationDoesntMatch, s)
               else
                 (let passwordMatch = bcrypt_compare env oldPassword (password user);
                      hashedNewPassword = bcrypt_hash env newPassword 10
                  in if \<not> passwordMatch then
                       (if \<not> checkValidPassword env newPassword then (Inl PasswordTooWeak, s)
                        else (Inr Undefined,
                              delete_VerificationCode (\<lambda>v. vc_code v = c)
                                (update_Users (\<lambda>u. email u = em)
                                   (\<lambda>u. u\<lparr>password := hashedNewPassword\<rparr>) s)))
                     else (Inl PleaseChooseAnotherPassword, s))))"

subsection \<open>UPDATE_USER\<close>

text \<open>
  The object \<^verbatim>\<open>updated_usr\<close>: every key is optional, and \<^verbatim>\<open>Object.keys\<close> counts the keys
  that were assigned.
\<close>

record partial_user =
  new_userName :: "string option"
  new_fullName :: "string option"
  new_email :: "string option"
  new_password :: "string option"
  new_birthday :: "string option"

definition empty_partial :: partial_user where
  "empty_partial = \<lparr>new_userName = None, new_fullName = None, new_email = None,
     new_password = None, new_birthday = None\<rparr>"

definition keys_length :: "partial_user \<Rightarrow> nat" where
  "keys_length p = length (filter (\<lambda>k. k \<noteq> None)
     [new_userName p, new_fullName p, new_email p, new_password p, new_birthday p])"

definition or_else :: "'a option \<Rightarrow> 'a \<Rightarrow> 'a" where
  "or_else x d = (case x of Some v \<Rightarrow> v | None \<Rightarrow> d)"

definition apply_partial :: "partial_user \<Rightarrow> user \<Rightarrow> user" where
  "apply_partial p u =
     u\<lparr>userName := or_else (new_userName p) (userName u),
       fullName := or_else (new_fullName p) (fullName u),
       email := or_else (new_email p) (email u),
       password := or_else (new_password p) (password u),
       birthday := or_else (new_birthday p) (birthday u)\<rparr>"

text \<open>The last three lines of the resolver: the update when a key was set, the error otherwise.\<close>

definition persist :: "nat \<Rightarrow> partial_user \<Rightarrow> store \<Rightarrow> outcome" where
  "persist i updated_usr s =
     (if keys_length updated_usr \<noteq> 0
      then (Inr UpdateResult, update_Users (\<lambda>u. userId u = i) (apply_partial updated_usr) s)
      else (Inl NO_ITEM_SELECTED, s))"

definition UPDATE_USER ::
  "env \<Rightarrow> nat \<Rightarrow> string option \<Rightarrow> string option \<Rightarrow> string option \<Rightarrow>
   string option \<Rightarrow> string option \<Rightarrow> string option \<Rightarrow> store \<Rightarrow> outcome" where
  "UPDATE_USER env i userName' fullName' email' oldPassword newPassword birthday' s =
     (let u0 = empty_partial;
          u1 = (if truthy userName' then u0\<lparr>new_userName := userName'\<rparr> else u0);
          u2 = (if truthy fullName' then u1\<lparr>new_fullName := fullName'\<rparr> else u1);
          u3 = (if truthy email' then u2\<lparr>new_email := email'\<rparr> else u2);
          u4 = (if truthy birthday' then u3\<lparr>new_birthday := birthday'\<rparr> else u3)
      in case findOne (\<lambda>u. userId u = i) (Users s) of
           None \<Rightarrow> (Inl USER_DOESNT_EXIST, s)
         | Some user \<Rightarrow>
             if truthy oldPassword \<and> truthy newPassword then
               (if oldPassword = newPassword then (Inl PLEASE_CHOOSE_ANOTHER_PASSWORD, s)
                else
                  (let passwordMatch = bcrypt_compare env (or_else oldPassword []) (password user)
                   in if passwordMatch
                      then persist i
                             (u4\<lparr>new_password := Some (bcrypt_hash env (or_else newPassword []) 10)\<rparr>) s
                      else (Inl PasswordDoesntMatch, s)))
             else persist i u4 s)"

subsection \<open>RESET_USER\<close>

text \<open>
  Modelled from the spec: \<^verbatim>\<open>removeExpiredAuth\<close> of \<^verbatim>\<open>utils\<close>, whose source is not part of
  the files at hand. The spec: the reset "schedules automatic deletion after a fixed delay
  (550 time units) to bound code lifetime even if unused", as "a fire-and-forget deferred
  task with no cancellation if the code is already consumed". The call records the pending
  deletion; \<open>expire\<close> is the deferred task when it runs.
\<close>

definition removeExpiredAuth :: "string \<Rightarrow> string \<Rightarrow> nat \<Rightarrow> store \<Rightarrow> store" where
  "removeExpiredAuth em c delay s =
     s\<lparr>timers := timers s @ [\<lparr>t_email = em, t_code = c, t_delay = delay\<rparr>]\<rparr>"

definition expire :: "timer \<Rightarrow> store \<Rightarrow> store" where
  "expire t s =
     (if t \<in> set (timers s)
      then delete_VerificationCode (\<lambda>v. vc_email v = t_email t \<and> vc_code v = t_code t)
             (s\<lparr>timers := remove1 t (timers s)\<rparr>)
      else s)"

definition sendMail :: "string \<Rightarrow> string \<Rightarrow> store \<Rightarrow> store" where
  "sendMail em c s =
     s\<lparr>outbox := outbox s @ [\<lparr>m_from = ''noreply@steamvision.app'', m_to = em, m_code = c\<rparr>]\<rparr>"

text \<open>
  \<open>verifCode\<close> is the value \<^verbatim>\<open>generateId()\<close> returned in this call (\<^verbatim>\<open>generateId\<close> is another
  function of \<^verbatim>\<open>utils\<close>; the resolver does not look at the value).
\<close>

definition RESET_USER :: "string \<Rightarrow> string \<Rightarrow> store \<Rightarrow> outcome" where
  "RESET_USER em verifCode s =
     (case findOne (\<lambda>u. email u = em) (Users s) of
        None \<Rightarrow> (Inl USER_DOESNT_EXIST, s)
      | Some user \<Rightarrow>
          (Inr Undefined,
           sendMail em verifCode
             (removeExpiredAuth em verifCode 550
                (insert_VerificationCode em verifCode
                   (delete_VerificationCode (\<lambda>v. vc_email v = em) s)))))"

subsection \<open>CHECK_VERIFICATION_CODE\<close>

definition CHECK_VERIFICATION_CODE :: "string \<Rightarrow> string \<Rightarrow> store \<Rightarrow> outcome" where
  "CHECK_VERIFICATION_CODE em c s =
     (case findOne (\<lambda>v. vc_code v = c \<and> vc_email v = em) (VerificationCode s) of
        None \<Rightarrow> (Inl UnvalidCode, s)
      | Some verif_code \<Rightarrow> (Inr OK, s))"

subsection \<open>The schema's mutations\<close>

text \<open>
  The fields of the \<^verbatim>\<open>Mutation\<close> object that concern users, under the schema's names, and
  the expiry of a scheduled timer as one more step of the sequential system.
\<close>

datatype operation =
    createUser create_user_args
  | login string string
  | deleteUser nat
  | updateUserPassword string string string string
  | updateUser nat "string option" "string option" "string option"
      "string option" "string option" "string option"
  | resetUser string string
  | chaeckVerificationUser string string
  | timerExpires timer

fun exec :: "env \<Rightarrow> operation \<Rightarrow> store \<Rightarrow> outcome" where
  "exec env (createUser args) s = CREATE_USER env args s"
| "exec env (login em pw) s = LOGIN env em pw s"
| "exec env (deleteUser i) s = DELETE_USER i s"
| "exec env (updateUserPassword em old new c) s = UPDATE_USER_PASSWORD env em old new c s"
| "exec env (updateUser i un fn em old new bd) s = UPDATE_USER env i un fn em old new bd s"
| "exec env (resetUser em c) s = RESET_USER em c s"
| "exec env (chaeckVerificationUser em c) s = CHECK_VERIFICATION_CODE em c s"
| "exec env (timerExpires t) s = (Inr Undefined, expire t s)"

fun run :: "env \<Rightarrow> operation list \<Rightarrow> store \<Rightarrow> store" where
  "run env [] s = s"
| "run env (op # ops) s = run env ops (snd (exec env op s))"

text \<open>At most one verification code per email address.\<close>

definition one_code_per_email :: "store \<Rightarrow> bool" where
  "one_code_per_email s = distinct (map vc_email (VerificationCode s))"

section \<open>Sample data\<close>

text \<open>
  Modelled from the spec: \<^verbatim>\<open>checkValidPassword\<close> of \<^verbatim>\<open>utils\<close>, whose source is not part of
  the files at hand. The spec: "password strength (length \<ge> 8, upper/lower/digit/special)";
  a special character is taken to be one that is neither a letter nor a digit.
\<close>

definition is_upper :: "char \<Rightarrow> bool" where
  "is_upper c = (65 \<le> (of_char c :: nat) \<and> (of_char c :: nat) \<le> 90)"

definition is_lower :: "char \<Rightarrow> bool" where
  "is_lower c = (97 \<le> (of_char c :: nat) \<and> (of_char c :: nat) \<le> 122)"

definition is_digit :: "char \<Rightarrow> bool" where
  "is_digit c = (48 \<le> (of_char c :: nat) \<and> (of_char c :: nat) \<le> 57)"

definition is_special :: "char \<Rightarrow> bool" where
  "is_special c = (\<not> is_upper c \<and> \<not> is_lower c \<and> \<not> is_digit c)"

definition checkValidPassword_spec :: "string \<Rightarrow> bool" where
  "checkValidPassword_spec p =
     (8 \<le> length p \<and> list_ex is_upper p \<and> list_ex is_lower p \<and> list_ex is_digit p
      \<and> list_ex is_special p)"

text \<open>
  An environment and a store to run the resolvers on: a toy hash that prefixes the
  password, validators that accept every string except the password validator above, and
  one registered user with one verification code.
\<close>

definition sample_env :: env where
  "sample_env =
     \<lparr>checkValidEmail = (\<lambda>x. True), checkValidFullName = (\<lambda>x. True),
       checkValidUserName = (\<lambda>x. True), checkValidPassword = checkValidPassword_spec,
       checkValidBirthday = (\<lambda>x. True),
       bcrypt_hash = (\<lambda>p r. ''$2a$'' @ p),
       bcrypt_compare = (\<lambda>p h. h = ''$2a$'' @ p),
       ACCESS_TOKEN_SECRET = None\<rparr>"

definition ada :: user where
  "ada = \<lparr>userId = 1, fullName = ''Ada Lovelace'', userName = ''ada'',
          email = ''ada@example.org'', password = ''$2a$Abcdef1!'',
          birthday = ''1815-12-10'', isAdmin = False\<rparr>"

definition sample_store :: store where
  "sample_store =
     \<lparr>Users = [ada],
       VerificationCode = [\<lparr>vc_email = ''ada@example.org'', vc_code = ''c0de''\<rparr>],
       next_id = 2, timers = [], outbox = []\<rparr>"

definition bob_args :: create_user_args where
  "bob_args =
     \<lparr>arg_fullName = ''Bob Builder'', arg_userName = ''bob'', arg_email = ''bob@example.org'',
       arg_password = ''Xyz12345!'', arg_passwordConfirmation = ''Xyz12345!'',
       arg_birthday = ''1990-01-01'', arg_isAdmin = None\<rparr>"

section \<open>Properties\<close>

subsection \<open>Lookups and rejections\<close>

lemma findOne_None: "findOne P xs = None \<longleftrightarrow> (\<forall>x\<in>set xs. \<not> P x)"
  by (auto simp: findOne_def find_None_iff)

lemma findOne_Some_holds: "findOne P xs = Some x \<Longrightarrow> x \<in> set xs \<and> P x"
  by (auto simp: findOne_def find_Some_iff)

lemma CREATE_USER_rejects_unchanged:
  "fst (CREATE_USER env args s) = Inl e \<Longrightarrow> snd (CREATE_USER env args s) = s"
  by (auto simp: CREATE_USER_def Let_def split: if_splits option.splits)

lemma LOGIN_unchanged: "snd (LOGIN env em pw s) = s"
  by (simp add: LOGIN_def Let_def split: option.splits)

lemma UPDATE_USER_PASSWORD_rejects_unchanged:
  "fst (UPDATE_USER_PASSWORD env em old new c s) = Inl e \<Longrightarrow>
   snd (UPDATE_USER_PASSWORD env em old new c s) = s"
  by (auto simp: UPDATE_USER_PASSWORD_def Let_def split: if_splits option.splits)

lemma persist_rejects_unchanged:
  "fst (persist i p s) = Inl e \<Longrightarrow> snd (persist i p s) = s"
  by (auto simp: persist_def split: if_splits)

lemma UPDATE_USER_rejects_unchanged:
  "fst (UPDATE_USER env i un fn em old new bd s) = Inl e \<Longrightarrow>
   snd (UPDATE_USER env i un fn em old new bd s) = s"
  unfolding UPDATE_USER_def Let_def
  by (auto split: if_splits option.splits dest: persist_rejects_unchanged)

lemma RESET_USER_rejects_unchanged:
  "fst (RESET_USER em c s) = Inl e \<Longrightarrow> snd (RESET_USER em c s) = s"
  by (auto simp: RESET_USER_def split: option.splits)

lemma CHECK_VERIFICATION_CODE_unchanged: "snd (CHECK_VERIFICATION_CODE em c s) = s"
  by (simp add: CHECK_VERIFICATION_CODE_def split: option.splits)

lemma find_map_update:
  "find P xs = Some x \<Longrightarrow> (\<And>y. P (f y) = P y) \<Longrightarrow>
   find P (map (\<lambda>y. if P y then f y else y) xs) = Some (f x)"
  by (induction xs) (auto split: if_splits)

subsection \<open>Signup\<close>

text \<open>
  C5. A signup whose email or whose username already belongs to a row of \<open>Users\<close> is
  rejected with an error, whatever the other arguments are, and the store is left as it
  was: no row is inserted.
\<close>

theorem CREATE_USER_duplicate_rejected:
  assumes "\<exists>u\<in>set (Users s). email u = arg_email args \<or> userName u = arg_userName args"
  shows "(\<exists>e. fst (CREATE_USER env args s) = Inl e) \<and> snd (CREATE_USER env args s) = s"
proof -
  from assms have "findOne (\<lambda>u. email u = arg_email args \<or> userName u = arg_userName args)
      (Users s) \<noteq> None"
    by (simp add: findOne_None)
  then obtain user where
    "findOne (\<lambda>u. email u = arg_email args \<or> userName u = arg_userName args) (Users s) = Some user"
    by blast
  then show ?thesis
    by (simp add: CREATE_USER_def)
qed

text \<open>
  On the sample store: a signup under the user name of the registered user is rejected with
  "User already registered !", while the same arguments under a new name are accepted.
\<close>

theorem CREATE_USER_duplicate_rejected_witness:
  "(\<exists>u\<in>set (Users sample_store).
      email u = arg_email (bob_args\<lparr>arg_userName := ''ada''\<rparr>)
      \<or> userName u = arg_userName (bob_args\<lparr>arg_userName := ''ada''\<rparr>))
   \<and> CREATE_USER sample_env (bob_args\<lparr>arg_userName := ''ada''\<rparr>) sample_store
       = (Inl UserAlreadyRegistered, sample_store)
   \<and> fst (CREATE_USER sample_env bob_args sample_store) = Inr (Echo bob_args)"
  using CREATE_USER_duplicate_rejected [of sample_store "bob_args\<lparr>arg_userName := ''ada''\<rparr>" sample_env]
  by (simp add: CREATE_USER_def sample_store_def sample_env_def bob_args_def ada_def
      findOne_def checkValidPassword_spec_def is_upper_def is_lower_def is_digit_def
      is_special_def)

text \<open>
  C8. When a signup succeeds, the resolver returns the argument object as it was submitted
  (with the plaintext password and the confirmation), while the row it inserted carries the
  hash of the password and the identifier the table generated.
\<close>

theorem CREATE_USER_returns_args:
  assumes "fst (CREATE_USER env args s) = Inr r"
  shows "r = Echo args
    \<and> Users (snd (CREATE_USER env args s)) = Users s @
        [\<lparr>userId = next_id s, fullName = arg_fullName args, userName = arg_userName args,
          email = arg_email args, password = bcrypt_hash env (arg_password args) 10,
          birthday = arg_birthday args, isAdmin = truthy_bool (arg_isAdmin args)\<rparr>]"
  using assms
  by (auto simp: CREATE_USER_def Let_def insert_Users_def split: if_splits option.splits)

theorem CREATE_USER_returns_args_witness:
  "fst (CREATE_USER sample_env bob_args sample_store) = Inr (Echo bob_args)
   \<and> arg_password bob_args = ''Xyz12345!''
   \<and> password (last (Users (snd (CREATE_USER sample_env bob_args sample_store))))
       = ''$2a$Xyz12345!''
   \<and> userId (last (Users (snd (CREATE_USER sample_env bob_args sample_store)))) = 2"
proof -
  have ok: "fst (CREATE_USER sample_env bob_args sample_store) = Inr (Echo bob_args)"
    by (simp add: CREATE_USER_def sample_store_def sample_env_def bob_args_def ada_def
        findOne_def checkValidPassword_spec_def is_upper_def is_lower_def is_digit_def
        is_special_def)
  from CREATE_USER_returns_args [OF ok] ok show ?thesis
    by (simp add: sample_store_def sample_env_def bob_args_def)
qed

text \<open>
  C10. The row a successful signup inserts has \<open>isAdmin = True\<close> exactly when the argument
  \<open>isAdmin\<close> was supplied as \<open>true\<close>; when it is absent or \<open>false\<close> the row has
  \<open>isAdmin = False\<close>.
\<close>

theorem CREATE_USER_isAdmin:
  assumes "fst (CREATE_USER env args s) = Inr r"
  shows "\<exists>u. Users (snd (CREATE_USER env args s)) = Users s @ [u]
    \<and> (isAdmin u \<longleftrightarrow> arg_isAdmin args = Some True)
    \<and> (arg_isAdmin args = None \<or> arg_isAdmin args = Some False \<longrightarrow> isAdmin u = False)"
proof -
  have "truthy_bool (arg_isAdmin args) \<longleftrightarrow> arg_isAdmin args = Some True"
    by (cases "arg_isAdmin args") simp_all
  with assms show ?thesis
    by (auto simp: CREATE_USER_def Let_def insert_Users_def split: if_splits option.splits)
qed

theorem CREATE_USER_isAdmin_witness:
  "(\<exists>u. Users (snd (CREATE_USER sample_env bob_args sample_store)) = Users sample_store @ [u]
      \<and> isAdmin u = False)
   \<and> (\<exists>u. Users (snd (CREATE_USER sample_env (bob_args\<lparr>arg_isAdmin := Some False\<rparr>) sample_store))
            = Users sample_store @ [u] \<and> isAdmin u = False)
   \<and> (\<exists>u. Users (snd (CREATE_USER sample_env (bob_args\<lparr>arg_isAdmin := Some True\<rparr>) sample_store))
            = Users sample_store @ [u] \<and> isAdmin u = True)"
proof -
  have ok: "fst (CREATE_USER sample_env (bob_args\<lparr>arg_isAdmin := a\<rparr>) sample_store)
      = Inr (Echo (bob_args\<lparr>arg_isAdmin := a\<rparr>))" for a
    by (simp add: CREATE_USER_def sample_store_def sample_env_def bob_args_def ada_def
        findOne_def checkValidPassword_spec_def is_upper_def is_lower_def is_digit_def
        is_special_def)
  have same: "bob_args\<lparr>arg_isAdmin := None\<rparr> = bob_args"
    by (simp add: bob_args_def)
  have none: "arg_isAdmin bob_args = None"
    by (simp add: bob_args_def)
  from CREATE_USER_isAdmin [OF ok [of None]] CREATE_USER_isAdmin [OF ok [of "Some False"]]
    CREATE_USER_isAdmin [OF ok [of "Some True"]]
  show ?thesis
    by (auto simp: same none)
qed

subsection \<open>Login\<close>

text \<open>
  C6. \<open>LOGIN\<close> looks for the first user whose email or whose user name is the identifier.
  With no such user it rejects ("User doesn't exist !"); with a user whose stored hash does
  not match the password it rejects ("Wrong password !"); otherwise it returns a token,
  signed with the key of the environment and expiring in \<open>1d\<close>, that verifies to the
  claims id, fullName, email, username and isAdmin of that user. The store is unchanged
  in every case.
\<close>

theorem LOGIN_spec:
  "(\<not> (\<exists>u\<in>set (Users s). email u = ident \<or> userName u = ident) \<longrightarrow>
      LOGIN env ident pw s = (Inl UserDoesntExist, s))
   \<and> ((\<exists>u\<in>set (Users s). email u = ident \<or> userName u = ident) \<longrightarrow>
      (\<exists>user. findOne (\<lambda>u. email u = ident \<or> userName u = ident) (Users s) = Some user
         \<and> user \<in> set (Users s) \<and> (email user = ident \<or> userName user = ident)
         \<and> (\<not> bcrypt_compare env pw (password user) \<longrightarrow>
              LOGIN env ident pw s = (Inl WrongPassword, s))
         \<and> (bcrypt_compare env pw (password user) \<longrightarrow>
              (\<exists>tok. LOGIN env ident pw s = (Inr (Token tok), s)
                 \<and> jwt_expiresIn tok = ''1d''
                 \<and> jwt_verify tok (signing_key env) =
                     Some \<lparr>claim_id = userId user, claim_fullName = fullName user,
                           claim_email = email user, claim_username = userName user,
                           claim_isAdmin = isAdmin user\<rparr>))))"
proof (intro conjI impI)
  assume "\<not> (\<exists>u\<in>set (Users s). email u = ident \<or> userName u = ident)"
  then have "findOne (\<lambda>u. email u = ident \<or> userName u = ident) (Users s) = None"
    by (simp add: findOne_None)
  then show "LOGIN env ident pw s = (Inl UserDoesntExist, s)"
    by (simp add: LOGIN_def)
next
  assume "\<exists>u\<in>set (Users s). email u = ident \<or> userName u = ident"
  then have "findOne (\<lambda>u. email u = ident \<or> userName u = ident) (Users s) \<noteq> None"
    by (simp add: findOne_None)
  then obtain user where
    found: "findOne (\<lambda>u. email u = ident \<or> userName u = ident) (Users s) = Some user"
    by blast
  have "user \<in> set (Users s) \<and> (email user = ident \<or> userName user = ident)"
    using findOne_Some_holds [OF found] .
  moreover have "\<not> bcrypt_compare env pw (password user) \<longrightarrow>
      LOGIN env ident pw s = (Inl WrongPassword, s)"
    using found by (simp add: LOGIN_def)
  moreover have "bcrypt_compare env pw (password user) \<longrightarrow>
      (\<exists>tok. LOGIN env ident pw s = (Inr (Token tok), s)
         \<and> jwt_expiresIn tok = ''1d''
         \<and> jwt_verify tok (signing_key env) =
             Some \<lparr>claim_id = userId user, claim_fullName = fullName user,
                   claim_email = email user, claim_username = userName user,
                   claim_isAdmin = isAdmin user\<rparr>)"
    using found by (simp add: LOGIN_def jwt_sign_def)
  ultimately show "\<exists>user. findOne (\<lambda>u. email u = ident \<or> userName u = ident) (Users s) = Some user
         \<and> user \<in> set (Users s) \<and> (email user = ident \<or> userName user = ident)
         \<and> (\<not> bcrypt_compare env pw (password user) \<longrightarrow>
              LOGIN env ident pw s = (Inl WrongPassword, s))
         \<and> (bcrypt_compare env pw (password user) \<longrightarrow>
              (\<exists>tok. LOGIN env ident pw s = (Inr (Token tok), s)
                 \<and> jwt_expiresIn tok = ''1d''
                 \<and> jwt_verify tok (signing_key env) =
                     Some \<lparr>claim_id = userId user, claim_fullName = fullName user,
                           claim_email = email user, claim_username = userName user,
                           claim_isAdmin = isAdmin user\<rparr>))"
    using found by blast
qed

theorem LOGIN_spec_witness:
  "LOGIN sample_env ''nobody'' ''Abcdef1!'' sample_store = (Inl UserDoesntExist, sample_store)
   \<and> LOGIN sample_env ''ada'' ''wrong'' sample_store = (Inl WrongPassword, sample_store)
   \<and> (\<exists>tok. LOGIN sample_env ''ada@example.org'' ''Abcdef1!'' sample_store
               = (Inr (Token tok), sample_store)
        \<and> jwt_expiresIn tok = ''1d''
        \<and> jwt_verify tok ''secret_key'' =
            Some \<lparr>claim_id = 1, claim_fullName = ''Ada Lovelace'',
                  claim_email = ''ada@example.org'', claim_username = ''ada'',
                  claim_isAdmin = False\<rparr>)"
  using LOGIN_spec [of sample_store "''nobody''" sample_env "''Abcdef1!''"]
    LOGIN_spec [of sample_store "''ada''" sample_env "''wrong''"]
    LOGIN_spec [of sample_store "''ada@example.org''" sample_env "''Abcdef1!''"]
  by (simp add: sample_store_def sample_env_def ada_def findOne_def signing_key_def)

subsection \<open>Rejections write nothing\<close>

text \<open>
  C9. Whenever an operation of the schema (createUser, login, updateUserPassword,
  updateUser, resetUser and the others) rejects with an error, the store, and so both
  tables, is exactly the store before the call: every \<open>throw\<close> precedes every write.
\<close>

theorem rejection_leaves_store_unchanged:
  assumes "fst (exec env op s) = Inl e"
  shows "snd (exec env op s) = s"
proof (cases op)
  case (createUser args)
  with assms show ?thesis by (simp add: CREATE_USER_rejects_unchanged)
next
  case (login em pw)
  then show ?thesis by (simp add: LOGIN_unchanged)
next
  case (deleteUser i)
  with assms show ?thesis by (simp add: DELETE_USER_def)
next
  case (updateUserPassword em old new c)
  with assms show ?thesis by (simp add: UPDATE_USER_PASSWORD_rejects_unchanged)
next
  case (updateUser i un fn em old new bd)
  with assms show ?thesis by (simp add: UPDATE_USER_rejects_unchanged)
next
  case (resetUser em c)
  with assms show ?thesis by (simp add: RESET_USER_rejects_unchanged)
next
  case (chaeckVerificationUser em c)
  then show ?thesis by (simp add: CHECK_VERIFICATION_CODE_unchanged)
next
  case (timerExpires t)
  with assms show ?thesis by simp
qed

theorem rejection_leaves_store_unchanged_witness:
  "fst (exec sample_env
          (updateUserPassword ''ada@example.org'' ''Abcdef1!'' ''Abcdef1!'' ''c0de'')
          sample_store) = Inl PleaseChooseAnotherPassword
   \<and> snd (exec sample_env
          (updateUserPassword ''ada@example.org'' ''Abcdef1!'' ''Abcdef1!'' ''c0de'')
          sample_store) = sample_store
   \<and> fst (exec sample_env (resetUser ''nobody@example.org'' ''n3w'') sample_store)
       = Inl USER_DOESNT_EXIST
   \<and> snd (exec sample_env (resetUser ''nobody@example.org'' ''n3w'') sample_store)
       = sample_store"
proof -
  have a: "fst (exec sample_env
          (updateUserPassword ''ada@example.org'' ''Abcdef1!'' ''Abcdef1!'' ''c0de'')
          sample_store) = Inl PleaseChooseAnotherPassword"
    by (simp add: UPDATE_USER_PASSWORD_def sample_store_def sample_env_def ada_def findOne_def)
  have b: "fst (exec sample_env (resetUser ''nobody@example.org'' ''n3w'') sample_store)
       = Inl USER_DOESNT_EXIST"
    by (simp add: RESET_USER_def sample_store_def ada_def findOne_def)
  from a b rejection_leaves_store_unchanged [OF a] rejection_leaves_store_unchanged [OF b]
  show ?thesis by simp
qed

subsection \<open>Password change with a verification code\<close>

text \<open>
  C1. Take a call of \<open>UPDATE_USER_PASSWORD\<close> whose email belongs to a user, whose
  (email, code) pair is a row of \<open>VerificationCode\<close>, and whose old and new password are
  equal. If the old password does not match the stored hash and the new password passes
  the strength check, the call succeeds: the stored hash of that user (of every row with
  that email) becomes the hash of the new password, and every row with that code, the
  matching one included, is deleted. In every other case it rejects and writes nothing:
  with "Please choose another password" when the old password does match the stored
  hash, with the strength message when it does not match and the new password is weak.
\<close>

theorem UPDATE_USER_PASSWORD_spec:
  assumes user: "findOne (\<lambda>u. email u = em) (Users s) = Some user"
    and code: "findOne (\<lambda>v. vc_email v = em \<and> vc_code v = c) (VerificationCode s) = Some verif_code"
    and same: "oldPassword = newPassword"
  shows "(\<not> bcrypt_compare env oldPassword (password user) \<and> checkValidPassword env newPassword \<longrightarrow>
            fst (UPDATE_USER_PASSWORD env em oldPassword newPassword c s) = Inr Undefined
          \<and> Users (snd (UPDATE_USER_PASSWORD env em oldPassword newPassword c s)) =
              map (\<lambda>u. if email u = em then u\<lparr>password := bcrypt_hash env newPassword 10\<rparr> else u)
                (Users s)
          \<and> findOne (\<lambda>u. email u = em)
              (Users (snd (UPDATE_USER_PASSWORD env em oldPassword newPassword c s))) =
              Some (user\<lparr>password := bcrypt_hash env newPassword 10\<rparr>)
          \<and> VerificationCode (snd (UPDATE_USER_PASSWORD env em oldPassword newPassword c s)) =
              filter (\<lambda>v. vc_code v \<noteq> c) (VerificationCode s)
          \<and> verif_code \<notin> set (VerificationCode
              (snd (UPDATE_USER_PASSWORD env em oldPassword newPassword c s))))
       \<and> (bcrypt_compare env oldPassword (password user) \<longrightarrow>
            UPDATE_USER_PASSWORD env em oldPassword newPassword c s =
              (Inl PleaseChooseAnotherPassword, s))
       \<and> (\<not> bcrypt_compare env oldPassword (password user) \<and> \<not> checkValidPassword env newPassword \<longrightarrow>
            UPDATE_USER_PASSWORD env em oldPassword newPassword c s = (Inl PasswordTooWeak, s))"
proof (intro conjI impI)
  assume ok: "\<not> bcrypt_compare env oldPassword (password user) \<and> checkValidPassword env newPassword"
  let ?h = "bcrypt_hash env newPassword 10"
  have run: "UPDATE_USER_PASSWORD env em oldPassword newPassword c s =
      (Inr Undefined,
       delete_VerificationCode (\<lambda>v. vc_code v = c)
         (update_Users (\<lambda>u. email u = em) (\<lambda>u. u\<lparr>password := ?h\<rparr>) s))"
    using user code same ok by (simp add: UPDATE_USER_PASSWORD_def)
  show "fst (UPDATE_USER_PASSWORD env em oldPassword newPassword c s) = Inr Undefined"
    by (simp add: run)
  show users: "Users (snd (UPDATE_USER_PASSWORD env em oldPassword newPassword c s)) =
      map (\<lambda>u. if email u = em then u\<lparr>password := ?h\<rparr> else u) (Users s)"
    by (simp add: run delete_VerificationCode_def update_Users_def)
  have "find (\<lambda>u. email u = em) (Users s) = Some user"
    using user by (simp add: findOne_def)
  then have "find (\<lambda>u. email u = em)
      (map (\<lambda>u. if email u = em then u\<lparr>password := ?h\<rparr> else u) (Users s)) = Some (user\<lparr>password := ?h\<rparr>)"
    by (rule find_map_update) simp
  then show "findOne (\<lambda>u. email u = em)
      (Users (snd (UPDATE_USER_PASSWORD env em oldPassword newPassword c s))) =
      Some (user\<lparr>password := ?h\<rparr>)"
    by (simp add: users findOne_def)
  show codes: "VerificationCode (snd (UPDATE_USER_PASSWORD env em oldPassword newPassword c s)) =
      filter (\<lambda>v. vc_code v \<noteq> c) (VerificationCode s)"
    by (simp add: run delete_VerificationCode_def update_Users_def)
  have "vc_code verif_code = c"
    using findOne_Some_holds [OF code] by simp
  then show "verif_code \<notin> set (VerificationCode
      (snd (UPDATE_USER_PASSWORD env em oldPassword newPassword c s)))"
    by (simp add: codes)
next
  assume "bcrypt_compare env oldPassword (password user)"
  then show "UPDATE_USER_PASSWORD env em oldPassword newPassword c s =
      (Inl PleaseChooseAnotherPassword, s)"
    using user code same by (simp add: UPDATE_USER_PASSWORD_def)
next
  assume "\<not> bcrypt_compare env oldPassword (password user) \<and> \<not> checkValidPassword env newPassword"
  then show "UPDATE_USER_PASSWORD env em oldPassword newPassword c s = (Inl PasswordTooWeak, s)"
    using user code same by (simp add: UPDATE_USER_PASSWORD_def)
qed

text \<open>
  On the sample store, whose user has the password \<open>Abcdef1!\<close>: a different strong password
  is accepted and consumes the code, the current password is refused, a weak one is refused.
\<close>

theorem UPDATE_USER_PASSWORD_spec_witness:
  "findOne (\<lambda>u. email u = ''ada@example.org'') (Users sample_store) = Some ada
   \<and> findOne (\<lambda>v. vc_email v = ''ada@example.org'' \<and> vc_code v = ''c0de'')
       (VerificationCode sample_store) = Some \<lparr>vc_email = ''ada@example.org'', vc_code = ''c0de''\<rparr>
   \<and> UPDATE_USER_PASSWORD sample_env ''ada@example.org'' ''Xyz12345!'' ''Xyz12345!'' ''c0de''
       sample_store =
       (Inr Undefined, sample_store\<lparr>Users := [ada\<lparr>password := ''$2a$Xyz12345!''\<rparr>],
                                    VerificationCode := []\<rparr>)
   \<and> UPDATE_USER_PASSWORD sample_env ''ada@example.org'' ''Abcdef1!'' ''Abcdef1!'' ''c0de''
       sample_store = (Inl PleaseChooseAnotherPassword, sample_store)
   \<and> UPDATE_USER_PASSWORD sample_env ''ada@example.org'' ''weak'' ''weak'' ''c0de''
       sample_store = (Inl PasswordTooWeak, sample_store)"
proof -
  have u: "findOne (\<lambda>u. email u = ''ada@example.org'') (Users sample_store) = Some ada"
    by (simp add: sample_store_def ada_def findOne_def)
  have v: "findOne (\<lambda>v. vc_email v = ''ada@example.org'' \<and> vc_code v = ''c0de'')
       (VerificationCode sample_store) = Some \<lparr>vc_email = ''ada@example.org'', vc_code = ''c0de''\<rparr>"
    by (simp add: sample_store_def findOne_def)
  have strong: "checkValidPassword sample_env ''Xyz12345!''"
    by (simp add: sample_env_def checkValidPassword_spec_def is_upper_def is_lower_def
        is_digit_def is_special_def)
  have weak: "\<not> checkValidPassword sample_env ''weak''"
    by (simp add: sample_env_def checkValidPassword_spec_def)
  have cmp: "bcrypt_compare sample_env p (password ada) \<longleftrightarrow> p = ''Abcdef1!''" for p
    by (auto simp: sample_env_def ada_def)
  have hash: "bcrypt_hash sample_env ''Xyz12345!'' 10 = ''$2a$Xyz12345!''"
    by (simp add: sample_env_def)
  have s1: "snd (UPDATE_USER_PASSWORD sample_env ''ada@example.org'' ''Xyz12345!'' ''Xyz12345!''
      ''c0de'' sample_store) = sample_store\<lparr>Users := [ada\<lparr>password := ''$2a$Xyz12345!''\<rparr>],
                                    VerificationCode := []\<rparr>"
    by (simp add: UPDATE_USER_PASSWORD_def u v cmp strong hash delete_VerificationCode_def
        update_Users_def) (simp add: sample_store_def ada_def)
  from UPDATE_USER_PASSWORD_spec [where oldPassword = "''Xyz12345!''"
      and newPassword = "''Xyz12345!''" and env = sample_env, OF u v refl]
    UPDATE_USER_PASSWORD_spec [where oldPassword = "''Abcdef1!''"
      and newPassword = "''Abcdef1!''" and env = sample_env, OF u v refl]
    UPDATE_USER_PASSWORD_spec [where oldPassword = "''weak''"
      and newPassword = "''weak''" and env = sample_env, OF u v refl]
  show ?thesis
    by (simp add: u v s1 prod_eq_iff cmp strong weak)
qed

subsection \<open>Verification codes\<close>

lemma findOne_Some_iff_ex: "(\<exists>x. findOne P xs = Some x) \<longleftrightarrow> (\<exists>x\<in>set xs. P x)"
  using findOne_None [of P xs] by (cases "findOne P xs") auto

text \<open>
  C2, as stated, says that \<open>CHECK_VERIFICATION_CODE\<close> succeeds at most once on a pair
  (email, code). The resolver only reads the table: on the sample store a second check of
  the same pair succeeds like the first.
\<close>

theorem CHECK_VERIFICATION_CODE_succeeds_twice:
  "fst (CHECK_VERIFICATION_CODE ''ada@example.org'' ''c0de'' sample_store) = Inr OK
   \<and> fst (CHECK_VERIFICATION_CODE ''ada@example.org'' ''c0de''
            (snd (CHECK_VERIFICATION_CODE ''ada@example.org'' ''c0de'' sample_store))) = Inr OK"
  by (simp add: CHECK_VERIFICATION_CODE_def sample_store_def findOne_def)

text \<open>
  C2, amended. \<open>CHECK_VERIFICATION_CODE\<close> never changes the store; it succeeds exactly when
  a row with that email and that code exists, so a check that succeeded succeeds again when
  repeated. The code is consumed by the password change: after a successful
  \<open>UPDATE_USER_PASSWORD\<close> with that email and code, a check of the same pair fails with
  "Unvalid code !".
\<close>

theorem verification_code_consumed_by_UPDATE_USER_PASSWORD:
  "snd (CHECK_VERIFICATION_CODE em c s) = s
   \<and> (fst (CHECK_VERIFICATION_CODE em c s) = Inr OK \<longleftrightarrow>
        (\<exists>v\<in>set (VerificationCode s). vc_email v = em \<and> vc_code v = c))
   \<and> (fst (CHECK_VERIFICATION_CODE em c s) = Inr OK \<longrightarrow>
        fst (CHECK_VERIFICATION_CODE em c (snd (CHECK_VERIFICATION_CODE em c s))) = Inr OK)
   \<and> (fst (UPDATE_USER_PASSWORD env em oldPassword newPassword c s) = Inr Undefined \<longrightarrow>
        fst (CHECK_VERIFICATION_CODE em c
               (snd (UPDATE_USER_PASSWORD env em oldPassword newPassword c s))) = Inl UnvalidCode)"
proof (intro conjI impI)
  show same: "snd (CHECK_VERIFICATION_CODE em c s) = s"
    by (rule CHECK_VERIFICATION_CODE_unchanged)
  have "fst (CHECK_VERIFICATION_CODE em c s) = Inr OK \<longleftrightarrow>
      (\<exists>v. findOne (\<lambda>v. vc_code v = c \<and> vc_email v = em) (VerificationCode s) = Some v)"
    by (simp add: CHECK_VERIFICATION_CODE_def split: option.splits)
  then show "fst (CHECK_VERIFICATION_CODE em c s) = Inr OK \<longleftrightarrow>
      (\<exists>v\<in>set (VerificationCode s). vc_email v = em \<and> vc_code v = c)"
    by (auto simp: findOne_Some_iff_ex)
  show "fst (CHECK_VERIFICATION_CODE em c (snd (CHECK_VERIFICATION_CODE em c s))) = Inr OK"
    if "fst (CHECK_VERIFICATION_CODE em c s) = Inr OK"
    using that by (simp add: same)
next
  assume ok: "fst (UPDATE_USER_PASSWORD env em oldPassword newPassword c s) = Inr Undefined"
  let ?s' = "snd (UPDATE_USER_PASSWORD env em oldPassword newPassword c s)"
  from ok have "VerificationCode ?s' = filter (\<lambda>v. vc_code v \<noteq> c) (VerificationCode s)"
    by (auto simp: UPDATE_USER_PASSWORD_def Let_def delete_VerificationCode_def update_Users_def
        split: option.splits if_splits)
  then have "findOne (\<lambda>v. vc_code v = c \<and> vc_email v = em) (VerificationCode ?s') = None"
    by (simp add: findOne_None)
  then show "fst (CHECK_VERIFICATION_CODE em c ?s') = Inl UnvalidCode"
    by (simp add: CHECK_VERIFICATION_CODE_def)
qed

theorem verification_code_consumed_by_UPDATE_USER_PASSWORD_witness:
  "fst (CHECK_VERIFICATION_CODE ''ada@example.org'' ''c0de'' sample_store) = Inr OK
   \<and> fst (UPDATE_USER_PASSWORD sample_env ''ada@example.org'' ''Xyz12345!'' ''Xyz12345!''
            ''c0de'' sample_store) = Inr Undefined
   \<and> fst (CHECK_VERIFICATION_CODE ''ada@example.org'' ''c0de''
            (snd (UPDATE_USER_PASSWORD sample_env ''ada@example.org'' ''Xyz12345!''
                    ''Xyz12345!'' ''c0de'' sample_store))) = Inl UnvalidCode"
proof -
  have ok: "fst (UPDATE_USER_PASSWORD sample_env ''ada@example.org'' ''Xyz12345!'' ''Xyz12345!''
            ''c0de'' sample_store) = Inr Undefined"
    by (simp add: UPDATE_USER_PASSWORD_def sample_store_def sample_env_def ada_def findOne_def
        checkValidPassword_spec_def is_upper_def is_lower_def is_digit_def is_special_def)
  have row: "\<exists>v\<in>set (VerificationCode sample_store).
      vc_email v = ''ada@example.org'' \<and> vc_code v = ''c0de''"
    by (simp add: sample_store_def)
  from verification_code_consumed_by_UPDATE_USER_PASSWORD
    [of "''ada@example.org''" "''c0de''" sample_store sample_env "''Xyz12345!''" "''Xyz12345!''"]
    ok row
  show ?thesis by simp
qed

subsection \<open>Profile update\<close>

lemma truthy_Some: "truthy x \<Longrightarrow> \<exists>v. x = Some v \<and> v \<noteq> []"
  by (cases x) simp_all

lemma UPDATE_USER_no_password_pair:
  assumes "findOne (\<lambda>u. userId u = i) (Users s) = Some user"
    and "\<not> (truthy oldPassword \<and> truthy newPassword)"
  shows "UPDATE_USER env i un fn em oldPassword newPassword bd s =
    persist i
      ((if truthy bd then (\<lambda>p. p\<lparr>new_birthday := bd\<rparr>) else (\<lambda>p. p))
        ((if truthy em then (\<lambda>p. p\<lparr>new_email := em\<rparr>) else (\<lambda>p. p))
          ((if truthy fn then (\<lambda>p. p\<lparr>new_fullName := fn\<rparr>) else (\<lambda>p. p))
            ((if truthy un then (\<lambda>p. p\<lparr>new_userName := un\<rparr>) else (\<lambda>p. p))
              empty_partial)))) s"
  using assms by (auto simp: UPDATE_USER_def Let_def)

lemma persist_empty: "persist i empty_partial s = (Inl NO_ITEM_SELECTED, s)"
  by (simp add: persist_def keys_length_def empty_partial_def)

lemma persist_userName:
  "persist i (empty_partial\<lparr>new_userName := Some v\<rparr>) s =
     (Inr UpdateResult,
      s\<lparr>Users := map (\<lambda>u. if userId u = i then u\<lparr>userName := v\<rparr> else u) (Users s)\<rparr>)"
  by (simp add: persist_def keys_length_def empty_partial_def apply_partial_def or_else_def
      update_Users_def)

lemma persist_fullName:
  "persist i (empty_partial\<lparr>new_fullName := Some v\<rparr>) s =
     (Inr UpdateResult,
      s\<lparr>Users := map (\<lambda>u. if userId u = i then u\<lparr>fullName := v\<rparr> else u) (Users s)\<rparr>)"
  by (simp add: persist_def keys_length_def empty_partial_def apply_partial_def or_else_def
      update_Users_def)

lemma persist_email:
  "persist i (empty_partial\<lparr>new_email := Some v\<rparr>) s =
     (Inr UpdateResult,
      s\<lparr>Users := map (\<lambda>u. if userId u = i then u\<lparr>email := v\<rparr> else u) (Users s)\<rparr>)"
  by (simp add: persist_def keys_length_def empty_partial_def apply_partial_def or_else_def
      update_Users_def)

lemma persist_birthday:
  "persist i (empty_partial\<lparr>new_birthday := Some v\<rparr>) s =
     (Inr UpdateResult,
      s\<lparr>Users := map (\<lambda>u. if userId u = i then u\<lparr>birthday := v\<rparr> else u) (Users s)\<rparr>)"
  by (simp add: persist_def keys_length_def empty_partial_def apply_partial_def or_else_def
      update_Users_def)

lemma persist_password:
  "persist i (empty_partial\<lparr>new_password := Some v\<rparr>) s =
     (Inr UpdateResult,
      s\<lparr>Users := map (\<lambda>u. if userId u = i then u\<lparr>password := v\<rparr> else u) (Users s)\<rparr>)"
  by (simp add: persist_def keys_length_def empty_partial_def apply_partial_def or_else_def
      update_Users_def)

text \<open>
  C3. Take a call of \<open>UPDATE_USER\<close> on the id of an existing user. A field is present when
  the resolver's test \<^verbatim>\<open>if (field)\<close> passes: supplied and not the empty string.
  \<^item> With none of userName, fullName, email and birthday present and no password pair
    (old and new password both present), the call rejects with "NO ITEM SELECTED !" and
    the store is unchanged.
  \<^item> With exactly one of the four present and no password pair, the update sets that column
    of the rows with that id and nothing else: every other column, every other row and the
    rest of the store are as before.
  \<^item> With none of the four present and a password pair whose old password differs from the
    new one and matches the stored hash, only the password column changes, to the hash of
    the new password.
\<close>

theorem UPDATE_USER_spec:
  assumes user: "findOne (\<lambda>u. userId u = i) (Users s) = Some user"
  shows
   "(\<not> truthy un \<and> \<not> truthy fn \<and> \<not> truthy em \<and> \<not> truthy bd
       \<and> \<not> (truthy oldPassword \<and> truthy newPassword) \<longrightarrow>
       UPDATE_USER env i un fn em oldPassword newPassword bd s = (Inl NO_ITEM_SELECTED, s))
    \<and> (truthy un \<and> \<not> truthy fn \<and> \<not> truthy em \<and> \<not> truthy bd
       \<and> \<not> (truthy oldPassword \<and> truthy newPassword) \<longrightarrow>
       UPDATE_USER env i un fn em oldPassword newPassword bd s =
         (Inr UpdateResult,
          s\<lparr>Users := map (\<lambda>u. if userId u = i then u\<lparr>userName := or_else un []\<rparr> else u)
                        (Users s)\<rparr>))
    \<and> (\<not> truthy un \<and> truthy fn \<and> \<not> truthy em \<and> \<not> truthy bd
       \<and> \<not> (truthy oldPassword \<and> truthy newPassword) \<longrightarrow>
       UPDATE_USER env i un fn em oldPassword newPassword bd s =
         (Inr UpdateResult,
          s\<lparr>Users := map (\<lambda>u. if userId u = i then u\<lparr>fullName := or_else fn []\<rparr> else u)
                        (Users s)\<rparr>))
    \<and> (\<not> truthy un \<and> \<not> truthy fn \<and> truthy em \<and> \<not> truthy bd
       \<and> \<not> (truthy oldPassword \<and> truthy newPassword) \<longrightarrow>
       UPDATE_USER env i un fn em oldPassword newPassword bd s =
         (Inr UpdateResult,
          s\<lparr>Users := map (\<lambda>u. if userId u = i then u\<lparr>email := or_else em []\<rparr> else u)
                        (Users s)\<rparr>))
    \<and> (\<not> truthy un \<and> \<not> truthy fn \<and> \<not> truthy em \<and> truthy bd
       \<and> \<not> (truthy oldPassword \<and> truthy newPassword) \<longrightarrow>
       UPDATE_USER env i un fn em oldPassword newPassword bd s =
         (Inr UpdateResult,
          s\<lparr>Users := map (\<lambda>u. if userId u = i then u\<lparr>birthday := or_else bd []\<rparr> else u)
                        (Users s)\<rparr>))
    \<and> (\<not> truthy un \<and> \<not> truthy fn \<and> \<not> truthy em \<and> \<not> truthy bd
       \<and> truthy oldPassword \<and> truthy newPassword \<and> oldPassword \<noteq> newPassword
       \<and> bcrypt_compare env (or_else oldPassword []) (password user) \<longrightarrow>
       UPDATE_USER env i un fn em oldPassword newPassword bd s =
         (Inr UpdateResult,
          s\<lparr>Users := map (\<lambda>u. if userId u = i
                               then u\<lparr>password := bcrypt_hash env (or_else newPassword []) 10\<rparr>
                               else u)
                        (Users s)\<rparr>))"
proof (intro conjI impI)
  assume a: "\<not> truthy un \<and> \<not> truthy fn \<and> \<not> truthy em \<and> \<not> truthy bd
       \<and> \<not> (truthy oldPassword \<and> truthy newPassword)"
  then show "UPDATE_USER env i un fn em oldPassword newPassword bd s = (Inl NO_ITEM_SELECTED, s)"
    using UPDATE_USER_no_password_pair [OF user, of oldPassword newPassword env un fn em bd]
    by (simp add: persist_empty)
next
  assume a: "truthy un \<and> \<not> truthy fn \<and> \<not> truthy em \<and> \<not> truthy bd
       \<and> \<not> (truthy oldPassword \<and> truthy newPassword)"
  then obtain v where "un = Some v" using truthy_Some by blast
  with a show "UPDATE_USER env i un fn em oldPassword newPassword bd s =
         (Inr UpdateResult,
          s\<lparr>Users := map (\<lambda>u. if userId u = i then u\<lparr>userName := or_else un []\<rparr> else u)
                        (Users s)\<rparr>)"
    using UPDATE_USER_no_password_pair [OF user, of oldPassword newPassword env un fn em bd]
    by (simp add: persist_userName or_else_def)
next
  assume a: "\<not> truthy un \<and> truthy fn \<and> \<not> truthy em \<and> \<not> truthy bd
       \<and> \<not> (truthy oldPassword \<and> truthy newPassword)"
  then obtain v where "fn = Some v" using truthy_Some by blast
  with a show "UPDATE_USER env i un fn em oldPassword newPassword bd s =
         (Inr UpdateResult,
          s\<lparr>Users := map (\<lambda>u. if userId u = i then u\<lparr>fullName := or_else fn []\<rparr> else u)
                        (Users s)\<rparr>)"
    using UPDATE_USER_no_password_pair [OF user, of oldPassword newPassword env un fn em bd]
    by (simp add: persist_fullName or_else_def)
next
  assume a: "\<not> truthy un \<and> \<not> truthy fn \<and> truthy em \<and> \<not> truthy bd
       \<and> \<not> (truthy oldPassword \<and> truthy newPassword)"
  then obtain v where "em = Some v" using truthy_Some by blast
  with a show "UPDATE_USER env i un fn em oldPassword newPassword bd s =
         (Inr UpdateResult,
          s\<lparr>Users := map (\<lambda>u. if userId u = i then u\<lparr>email := or_else em []\<rparr> else u)
                        (Users s)\<rparr>)"
    using UPDATE_USER_no_password_pair [OF user, of oldPassword newPassword env un fn em bd]
    by (simp add: persist_email or_else_def)
next
  assume a: "\<not> truthy un \<and> \<not> truthy fn \<and> \<not> truthy em \<and> truthy bd
       \<and> \<not> (truthy oldPassword \<and> truthy newPassword)"
  then obtain v where "bd = Some v" using truthy_Some by blast
  with a show "UPDATE_USER env i un fn em oldPassword newPassword bd s =
         (Inr UpdateResult,
          s\<lparr>Users := map (\<lambda>u. if userId u = i then u\<lparr>birthday := or_else bd []\<rparr> else u)
                        (Users s)\<rparr>)"
    using UPDATE_USER_no_password_pair [OF user, of oldPassword newPassword env un fn em bd]
    by (simp add: persist_birthday or_else_def)
next
  assume a: "\<not> truthy un \<and> \<not> truthy fn \<and> \<not> truthy em \<and> \<not> truthy bd
       \<and> truthy oldPassword \<and> truthy newPassword \<and> oldPassword \<noteq> newPassword
       \<and> bcrypt_compare env (or_else oldPassword []) (password user)"
  then show "UPDATE_USER env i un fn em oldPassword newPassword bd s =
         (Inr UpdateResult,
          s\<lparr>Users := map (\<lambda>u. if userId u = i
                               then u\<lparr>password := bcrypt_hash env (or_else newPassword []) 10\<rparr>
                               else u)
                        (Users s)\<rparr>)"
    using user by (simp add: UPDATE_USER_def Let_def persist_password)
qed

text \<open>
  On the sample store: no field at all is rejected; a user name next to an empty email
  changes the user name only; a password pair alone changes the hash only.
\<close>

theorem UPDATE_USER_spec_witness:
  "findOne (\<lambda>u. userId u = 1) (Users sample_store) = Some ada
   \<and> UPDATE_USER sample_env 1 None None None None None None sample_store
       = (Inl NO_ITEM_SELECTED, sample_store)
   \<and> UPDATE_USER sample_env 1 (Some ''countess'') None (Some []) None None None sample_store
       = (Inr UpdateResult, sample_store\<lparr>Users := [ada\<lparr>userName := ''countess''\<rparr>]\<rparr>)
   \<and> UPDATE_USER sample_env 1 None None None (Some ''Abcdef1!'') (Some ''Xyz12345!'') None
       sample_store
       = (Inr UpdateResult, sample_store\<lparr>Users := [ada\<lparr>password := ''$2a$Xyz12345!''\<rparr>]\<rparr>)"
proof -
  have u: "findOne (\<lambda>u. userId u = 1) (Users sample_store) = Some ada"
    by (simp add: sample_store_def ada_def findOne_def)
  have users: "Users sample_store = [ada]" and i: "userId ada = 1"
    and pw: "password ada = ''$2a$Abcdef1!''"
    by (simp_all add: sample_store_def ada_def)
  have env: "bcrypt_compare sample_env ''Abcdef1!'' ''$2a$Abcdef1!''"
    "bcrypt_hash sample_env ''Xyz12345!'' 10 = ''$2a$Xyz12345!''"
    by (simp_all add: sample_env_def)
  from UPDATE_USER_spec [OF u, of None None None None None None sample_env]
    UPDATE_USER_spec [OF u, of "Some ''countess''" None "Some []" None None None sample_env]
    UPDATE_USER_spec [OF u, of None None None None "Some ''Abcdef1!''" "Some ''Xyz12345!''"
      sample_env]
  show ?thesis
    by (simp add: users i pw env or_else_def findOne_def)
qed

subsection \<open>Password reset\<close>

lemma one_code_per_email_delete:
  "one_code_per_email s \<Longrightarrow> one_code_per_email (delete_VerificationCode criteria s)"
  by (simp add: one_code_per_email_def delete_VerificationCode_def distinct_map_filter)

lemma one_code_per_email_cong:
  "VerificationCode s' = VerificationCode s \<Longrightarrow> one_code_per_email s' = one_code_per_email s"
  by (simp add: one_code_per_email_def)

lemma RESET_USER_codes:
  "findOne (\<lambda>u. email u = em) (Users s) = Some user \<Longrightarrow>
   VerificationCode (snd (RESET_USER em c s)) =
     filter (\<lambda>v. vc_email v \<noteq> em) (VerificationCode s) @ [\<lparr>vc_email = em, vc_code = c\<rparr>]"
  by (simp add: RESET_USER_def sendMail_def removeExpiredAuth_def insert_VerificationCode_def
      delete_VerificationCode_def)

lemma one_code_per_email_RESET_USER:
  assumes "one_code_per_email s"
  shows "one_code_per_email (snd (RESET_USER em c s))"
proof (cases "findOne (\<lambda>u. email u = em) (Users s)")
  case None
  with assms show ?thesis by (simp add: RESET_USER_def)
next
  case (Some user)
  from assms have "distinct (map vc_email (filter (\<lambda>v. vc_email v \<noteq> em) (VerificationCode s)))"
    by (simp add: one_code_per_email_def distinct_map_filter)
  then show ?thesis
    by (auto simp: one_code_per_email_def RESET_USER_codes [OF Some])
qed

lemma VerificationCode_CREATE_USER:
  "VerificationCode (snd (CREATE_USER env args s)) = VerificationCode s"
  by (simp add: CREATE_USER_def Let_def insert_Users_def split: option.splits)

lemma VerificationCode_persist:
  "VerificationCode (snd (persist i p s)) = VerificationCode s"
  by (simp add: persist_def update_Users_def)

lemma VerificationCode_UPDATE_USER:
  "VerificationCode (snd (UPDATE_USER env i un fn em old new bd s)) = VerificationCode s"
  unfolding UPDATE_USER_def Let_def
  by (simp add: VerificationCode_persist split: option.splits)

lemma one_code_per_email_UPDATE_USER_PASSWORD:
  "one_code_per_email s \<Longrightarrow>
   one_code_per_email (snd (UPDATE_USER_PASSWORD env em old new c s))"
  by (auto simp: UPDATE_USER_PASSWORD_def Let_def one_code_per_email_def
      delete_VerificationCode_def update_Users_def distinct_map_filter split: option.splits)

lemma one_code_per_email_expire:
  "one_code_per_email s \<Longrightarrow> one_code_per_email (expire t s)"
  by (simp add: expire_def one_code_per_email_def delete_VerificationCode_def
      distinct_map_filter)

lemma one_code_per_email_exec:
  assumes "one_code_per_email s"
  shows "one_code_per_email (snd (exec env op s))"
proof (cases op)
  case (createUser args)
  with assms show ?thesis
    by (simp add: one_code_per_email_cong [OF VerificationCode_CREATE_USER])
next
  case (login em pw)
  with assms show ?thesis by (simp add: LOGIN_unchanged)
next
  case (deleteUser i)
  with assms show ?thesis
    by (simp add: DELETE_USER_def delete_Users_def one_code_per_email_def)
next
  case (updateUserPassword em old new c)
  with assms show ?thesis by (simp add: one_code_per_email_UPDATE_USER_PASSWORD)
next
  case (updateUser i un fn em old new bd)
  with assms show ?thesis
    by (simp add: one_code_per_email_cong [OF VerificationCode_UPDATE_USER])
next
  case (resetUser em c)
  with assms show ?thesis by (simp add: one_code_per_email_RESET_USER)
next
  case (chaeckVerificationUser em c)
  with assms show ?thesis by (simp add: CHECK_VERIFICATION_CODE_unchanged)
next
  case (timerExpires t)
  with assms show ?thesis by (simp add: one_code_per_email_expire)
qed

lemma one_code_per_email_run:
  "one_code_per_email s \<Longrightarrow> one_code_per_email (run env ops s)"
  by (induction ops arbitrary: s) (simp_all add: one_code_per_email_exec)

text \<open>
  C7. \<open>RESET_USER\<close> rejects with "USER DOESN'T EXIST !" when no user has the email. Otherwise
  it takes the generated code, removes every row of \<open>VerificationCode\<close> with that email and
  then appends the row (email, code), so that exactly this one row is left for the email; it
  leaves \<open>Users\<close> alone and schedules the deletion of (email, code) with the delay 550, after
  which the row is gone. Every operation of the schema, the expiry of a timer included,
  preserves \<open>one_code_per_email\<close>, and so does every sequence of operations.
\<close>

theorem RESET_USER_spec:
  "(findOne (\<lambda>u. email u = em) (Users s) = None \<longrightarrow>
      RESET_USER em c s = (Inl USER_DOESNT_EXIST, s))
   \<and> (findOne (\<lambda>u. email u = em) (Users s) \<noteq> None \<longrightarrow>
        fst (RESET_USER em c s) = Inr Undefined
      \<and> Users (snd (RESET_USER em c s)) = Users s
      \<and> VerificationCode (snd (RESET_USER em c s)) =
          filter (\<lambda>v. vc_email v \<noteq> em) (VerificationCode s) @ [\<lparr>vc_email = em, vc_code = c\<rparr>]
      \<and> filter (\<lambda>v. vc_email v = em) (VerificationCode (snd (RESET_USER em c s))) =
          [\<lparr>vc_email = em, vc_code = c\<rparr>]
      \<and> timers (snd (RESET_USER em c s)) =
          timers s @ [\<lparr>t_email = em, t_code = c, t_delay = 550\<rparr>]
      \<and> \<lparr>vc_email = em, vc_code = c\<rparr> \<notin> set (VerificationCode
          (expire \<lparr>t_email = em, t_code = c, t_delay = 550\<rparr> (snd (RESET_USER em c s)))))
   \<and> (one_code_per_email s \<longrightarrow> one_code_per_email (snd (exec env op s)))
   \<and> (one_code_per_email s \<longrightarrow> one_code_per_email (run env ops s))"
proof (intro conjI impI)
  assume "findOne (\<lambda>u. email u = em) (Users s) = None"
  then show "RESET_USER em c s = (Inl USER_DOESNT_EXIST, s)"
    by (simp add: RESET_USER_def)
next
  assume "findOne (\<lambda>u. email u = em) (Users s) \<noteq> None"
  then obtain user where user: "findOne (\<lambda>u. email u = em) (Users s) = Some user"
    by blast
  show "fst (RESET_USER em c s) = Inr Undefined"
    using user by (simp add: RESET_USER_def)
  show "Users (snd (RESET_USER em c s)) = Users s"
    using user
    by (simp add: RESET_USER_def sendMail_def removeExpiredAuth_def insert_VerificationCode_def
        delete_VerificationCode_def)
  show codes: "VerificationCode (snd (RESET_USER em c s)) =
      filter (\<lambda>v. vc_email v \<noteq> em) (VerificationCode s) @ [\<lparr>vc_email = em, vc_code = c\<rparr>]"
    by (rule RESET_USER_codes [OF user])
  show "filter (\<lambda>v. vc_email v = em) (VerificationCode (snd (RESET_USER em c s))) =
      [\<lparr>vc_email = em, vc_code = c\<rparr>]"
    by (simp add: codes)
  show pending: "timers (snd (RESET_USER em c s)) =
      timers s @ [\<lparr>t_email = em, t_code = c, t_delay = 550\<rparr>]"
    using user
    by (simp add: RESET_USER_def sendMail_def removeExpiredAuth_def insert_VerificationCode_def
        delete_VerificationCode_def)
  show "\<lparr>vc_email = em, vc_code = c\<rparr> \<notin> set (VerificationCode
      (expire \<lparr>t_email = em, t_code = c, t_delay = 550\<rparr> (snd (RESET_USER em c s))))"
    by (simp add: expire_def pending delete_VerificationCode_def)
next
  assume "one_code_per_email s"
  then show "one_code_per_email (snd (exec env op s))"
    by (rule one_code_per_email_exec)
next
  assume "one_code_per_email s"
  then show "one_code_per_email (run env ops s)"
    by (rule one_code_per_email_run)
qed

theorem RESET_USER_spec_witness:
  "RESET_USER ''nobody@example.org'' ''n3w'' sample_store = (Inl USER_DOESNT_EXIST, sample_store)
   \<and> fst (RESET_USER ''ada@example.org'' ''n3w'' sample_store) = Inr Undefined
   \<and> VerificationCode (snd (RESET_USER ''ada@example.org'' ''n3w'' sample_store)) =
       [\<lparr>vc_email = ''ada@example.org'', vc_code = ''n3w''\<rparr>]
   \<and> timers (snd (RESET_USER ''ada@example.org'' ''n3w'' sample_store)) =
       [\<lparr>t_email = ''ada@example.org'', t_code = ''n3w'', t_delay = 550\<rparr>]
   \<and> one_code_per_email sample_store
   \<and> one_code_per_email (snd (exec sample_env (resetUser ''ada@example.org'' ''n3w'') sample_store))
   \<and> one_code_per_email (run sample_env
        [resetUser ''ada@example.org'' ''n3w'', createUser bob_args,
         resetUser ''bob@example.org'' ''b0b'', resetUser ''ada@example.org'' ''again'']
        sample_store)"
proof -
  have none: "findOne (\<lambda>u. email u = ''nobody@example.org'') (Users sample_store) = None"
    by (simp add: sample_store_def ada_def findOne_def)
  have some: "findOne (\<lambda>u. email u = ''ada@example.org'') (Users sample_store) \<noteq> None"
    by (simp add: sample_store_def ada_def findOne_def)
  have inv: "one_code_per_email sample_store"
    by (simp add: one_code_per_email_def sample_store_def)
  have codes: "VerificationCode sample_store = [\<lparr>vc_email = ''ada@example.org'', vc_code = ''c0de''\<rparr>]"
    and timers: "timers sample_store = []"
    by (simp_all add: sample_store_def)
  from RESET_USER_spec [of "''nobody@example.org''" sample_store "''n3w''" sample_env
      "resetUser ''ada@example.org'' ''n3w''" "[]"]
    RESET_USER_spec [of "''ada@example.org''" sample_store "''n3w''" sample_env
      "resetUser ''ada@example.org'' ''n3w''"
      "[resetUser ''ada@example.org'' ''n3w'', createUser bob_args,
        resetUser ''bob@example.org'' ''b0b'', resetUser ''ada@example.org'' ''again'']"]
  show ?thesis
    using none some inv by (simp add: codes timers)
qed

subsection \<open>Password strength\<close>

text \<open>
  Signup and the password change with a verification code reject every password that the
  validator refuses.
\<close>

lemma weak_password_rejected_by_CREATE_USER:
  "\<not> checkValidPassword env (arg_password args) \<Longrightarrow>
   \<exists>e. CREATE_USER env args s = (Inl e, s)"
  by (simp add: CREATE_USER_def)

lemma weak_password_rejected_by_UPDATE_USER_PASSWORD:
  "\<not> checkValidPassword env newPassword \<Longrightarrow>
   \<exists>e. UPDATE_USER_PASSWORD env em oldPassword newPassword c s = (Inl e, s)"
  by (simp add: UPDATE_USER_PASSWORD_def Let_def split: option.splits)

text \<open>
  The password branch of \<open>UPDATE_USER\<close> is different: once the old password matches the
  stored hash and differs from the new one, the new password is hashed and stored whatever
  the validator says of it.
\<close>

lemma keys_length_password: "keys_length (p\<lparr>new_password := Some h\<rparr>) \<noteq> 0"
  by (simp add: keys_length_def)

lemma persist_password_set:
  "persist i (p\<lparr>new_password := Some h\<rparr>) s =
     (Inr UpdateResult,
      update_Users (\<lambda>u. userId u = i) (apply_partial (p\<lparr>new_password := Some h\<rparr>)) s)"
  using keys_length_password [where p = p and h = h] by (simp add: persist_def)

lemma password_apply_partial: "password (apply_partial (p\<lparr>new_password := Some h\<rparr>) u) = h"
  by (simp add: apply_partial_def or_else_def)

lemma userId_apply_partial: "userId (apply_partial p u) = userId u"
  by (simp add: apply_partial_def)

lemma password_after_persist:
  assumes "u \<in> set (Users (snd (persist i (p\<lparr>new_password := Some h\<rparr>) s)))"
    and "userId u = i"
  shows "password u = h"
proof -
  from assms(1) obtain u0 where "u0 \<in> set (Users s)"
    and u: "u = (if userId u0 = i then apply_partial (p\<lparr>new_password := Some h\<rparr>) u0 else u0)"
    by (auto simp: persist_password_set update_Users_def)
  show ?thesis
  proof (cases "userId u0 = i")
    case True
    with u show ?thesis by (simp add: password_apply_partial)
  next
    case False
    with u assms(2) show ?thesis by simp
  qed
qed

lemma UPDATE_USER_password_pair:
  assumes "findOne (\<lambda>u. userId u = i) (Users s) = Some user"
    and "bcrypt_compare env old (password user)"
    and "old \<noteq> []" and "new \<noteq> []" and "old \<noteq> new"
  shows "\<exists>p. UPDATE_USER env i un fn em (Some old) (Some new) bd s =
    persist i (p\<lparr>new_password := Some (bcrypt_hash env new 10)\<rparr>) s"
proof -
  have "truthy (Some old) \<and> truthy (Some new)" and "Some old \<noteq> Some new"
    and "or_else (Some old) [] = old" and "or_else (Some new) [] = new"
    using assms by (simp_all add: or_else_def)
  then show ?thesis
    unfolding UPDATE_USER_def Let_def using assms(1,2)
    by (simp only: option.case if_True if_False simp_thms) blast
qed

lemma UPDATE_USER_accepts_any_new_password:
  assumes "findOne (\<lambda>u. userId u = i) (Users s) = Some user"
    and "bcrypt_compare env old (password user)"
    and "old \<noteq> []" and "new \<noteq> []" and "old \<noteq> new"
  shows "fst (UPDATE_USER env i un fn em (Some old) (Some new) bd s) = Inr UpdateResult
    \<and> (\<forall>u\<in>set (Users (snd (UPDATE_USER env i un fn em (Some old) (Some new) bd s))).
          userId u = i \<longrightarrow> password u = bcrypt_hash env new 10)"
proof -
  from UPDATE_USER_password_pair [OF assms] obtain p where
    run: "UPDATE_USER env i un fn em (Some old) (Some new) bd s =
      persist i (p\<lparr>new_password := Some (bcrypt_hash env new 10)\<rparr>) s"
    by blast
  have "fst (persist i (p\<lparr>new_password := Some (bcrypt_hash env new 10)\<rparr>) s) = Inr UpdateResult"
    by (simp add: persist_password_set)
  moreover have "\<forall>u\<in>set (Users (snd (persist i
      (p\<lparr>new_password := Some (bcrypt_hash env new 10)\<rparr>) s))).
      userId u = i \<longrightarrow> password u = bcrypt_hash env new 10"
    using password_after_persist by blast
  ultimately show ?thesis
    by (simp only: run) 
qed

text \<open>
  C4 asks the same of the password branch of \<open>UPDATE_USER\<close>. That branch never calls the
  validator: on the sample store, with the validator of the spec, the one-character
  password \<open>a\<close> is accepted and its hash is stored.
\<close>

theorem UPDATE_USER_stores_weak_password:
  "\<not> checkValidPassword sample_env ''a''
   \<and> UPDATE_USER sample_env 1 None None None (Some ''Abcdef1!'') (Some ''a'') None sample_store =
       (Inr UpdateResult, sample_store\<lparr>Users := [ada\<lparr>password := bcrypt_hash sample_env ''a'' 10\<rparr>]\<rparr>)"
  by (simp add: UPDATE_USER_def persist_def keys_length_def apply_partial_def empty_partial_def
      update_Users_def or_else_def sample_env_def sample_store_def ada_def findOne_def
      checkValidPassword_spec_def)

end
